theory Spec2Isabelle
  imports Complex_Main "HOL-Library.AList" "HOL-Library.Sublist" "HOL-Library.Word"
begin

section \<open>Python strings and containers\<close>

text \<open>
  Python \<open>str\<close> values are modelled as \<^typ>\<open>string\<close>. The model covers ASCII text: the
  case mappings change the 26 Latin letters and leave every other character as it is,
  and the whitespace set is the ASCII part of \<open>str.isspace\<close>.
\<close>

definition upper_char :: "char \<Rightarrow> char" where
  "upper_char c =
     (case map_of (zip ''abcdefghijklmnopqrstuvwxyz'' ''ABCDEFGHIJKLMNOPQRSTUVWXYZ'') c of
        Some u \<Rightarrow> u
      | None \<Rightarrow> c)"

definition lower_char :: "char \<Rightarrow> char" where
  "lower_char c =
     (case map_of (zip ''ABCDEFGHIJKLMNOPQRSTUVWXYZ'' ''abcdefghijklmnopqrstuvwxyz'') c of
        Some l \<Rightarrow> l
      | None \<Rightarrow> c)"

definition str_upper :: "string \<Rightarrow> string" where
  "str_upper s = map upper_char s"

definition str_lower :: "string \<Rightarrow> string" where
  "str_lower s = map lower_char s"

text \<open>\<open>sub in s\<close> on strings: \<open>sub\<close> occurs in \<open>s\<close> as a contiguous run.\<close>

fun str_in :: "string \<Rightarrow> string \<Rightarrow> bool" where
  "str_in sub [] = (sub = [])"
| "str_in sub (c # cs) = (prefix sub (c # cs) \<or> str_in sub cs)"





text \<open>\<open>sep.join(parts)\<close>.\<close>

fun str_join :: "string \<Rightarrow> string list \<Rightarrow> string" where
  "str_join sep [] = []"
| "str_join sep [p] = p"
| "str_join sep (p # q # ps) = p @ sep @ str_join sep (q # ps)"

text \<open>
  A \<open>dict\<close> with string keys keeps its keys in the order of their first insertion, and a
  later insertion under an existing key replaces the value in place: this is
  \<^const>\<open>AList.update\<close> on an association list.
\<close>

type_synonym 'v dict = "(string \<times> 'v) list"

text \<open>
  \<open>sorted(xs, key=f, reverse=True)\<close>: the list is reversed, sorted stably in ascending
  order and reversed again, so that elements with equal keys keep their order.
\<close>

definition sorted_reverse :: "('a \<Rightarrow> 'k::linorder) \<Rightarrow> 'a list \<Rightarrow> 'a list" where
  "sorted_reverse f xs = rev (sort_key f (rev xs))"

section \<open>Exceptions\<close>

datatype error =
    ValueError string
  | KeyError string
  | IndexError
  | TypeError
  | AttributeError
  | HTTPException nat string
  | ServiceError string

text \<open>
  \<^const>\<open>ServiceError\<close> stands for any exception raised inside an external client (the model,
  an index, the reranker, the tracing run, a document parser).
\<close>

section \<open>Data of the workflow\<close>

text \<open>A hit of \<open>index.search\<close>: the keys \<open>_id\<close>, \<open>_score\<close> and \<open>fields.chunk_text\<close>.\<close>

record hit =
  hit_id :: string
  hit_score :: real
  hit_chunk_text :: string

text \<open>What \<open>__merge_chunks\<close> hands to the reranker: \<open>{"_id", "chunk_text"}\<close>.\<close>

record candidate =
  cand_id :: string
  cand_chunk_text :: string

text \<open>An element of \<open>result.data\<close> of the reranker, read as \<open>doc["document"]["chunk_text"]\<close>.\<close>

record ranked =
  rank_score :: real
  rank_document :: candidate

text \<open>The \<open>usage_metadata\<close> of a model message and the message itself.\<close>

record usage =
  input_tokens :: int
  output_tokens :: int

record ai_message =
  msg_content :: "string dict list"
  msg_usage_metadata :: "usage option"

text \<open>
  \<open>GraphState\<close>. The run starts from \<open>{"prompt": prompt}\<close>, so every other key may be absent.
  A node returns a partial dictionary, \<open>update\<close>, whose keys overwrite those of the state.
\<close>

record graph_state =
  prompt :: string
  answer :: "string option"
  has_context :: "bool option"
  has_documents :: "bool option"
  documents :: "ranked list option"

record update =
  upd_answer :: "string option"
  upd_has_context :: "bool option"
  upd_has_documents :: "bool option"
  upd_documents :: "ranked list option"

definition no_update :: update where
  "no_update =
     \<lparr>upd_answer = None, upd_has_context = None, upd_has_documents = None, upd_documents = None\<rparr>"

definition apply_update :: "graph_state \<Rightarrow> update \<Rightarrow> graph_state" where
  "apply_update s u =
     \<lparr>prompt = prompt s,
      answer = (case upd_answer u of Some a \<Rightarrow> Some a | None \<Rightarrow> answer s),
      has_context = (case upd_has_context u of Some b \<Rightarrow> Some b | None \<Rightarrow> has_context s),
      has_documents = (case upd_has_documents u of Some b \<Rightarrow> Some b | None \<Rightarrow> has_documents s),
      documents = (case upd_documents u of Some d \<Rightarrow> Some d | None \<Rightarrow> documents s)\<rparr>"

text \<open>The metadata dictionary that \<open>__usage_metadata\<close> attaches to the current run.\<close>

record usage_metadata_dict =
  um_input_tokens :: int
  um_output_tokens :: int
  um_total_tokens :: int

record run_metadata =
  ls_model_name :: string
  ls_model_type :: string
  ls_provider :: string
  ls_run_depth :: int
  ls_temperature :: real
  md_usage_metadata :: usage_metadata_dict
  invocation_model :: string

text \<open>The calls a run makes on its collaborators, in the order it makes them.\<close>

datatype effect =
    ModelInvoke string
  | PineconeIndex string
  | IndexSearch string string
  | Rerank string "candidate list"
  | ModelStream string string
  | AddMetadata run_metadata
  | StreamWrite "string dict"

text \<open>
  The collaborators of one run. A call that raises returns \<^const>\<open>Inl\<close>;
  \<open>client_astream\<close> gives the chunks it delivers and the exception that ends the stream,
  if one does.
\<close>

record env =
  model_id :: string
  client_invoke :: "string \<Rightarrow> error + ai_message"
  client_astream :: "string \<Rightarrow> string \<Rightarrow> ai_message list \<times> error option"
  pinecone_index :: "string \<Rightarrow> error option"
  index_search :: "string \<Rightarrow> string \<Rightarrow> error + hit list"
  inference_rerank :: "string \<Rightarrow> candidate list \<Rightarrow> error + ranked list"
  get_current_run_tree :: bool
  run_add_metadata :: "run_metadata \<Rightarrow> error option"

section \<open>The workflow: \<open>AgentWorkFlow\<close>\<close>

subsection \<open>\<open>__merge_chunks\<close>\<close>

definition deduped_hits :: "hit list \<Rightarrow> hit list \<Rightarrow> hit list" where
  "deduped_hits h1 h2 = map snd (fold (\<lambda>h d. AList.update (hit_id h) h d) (h1 @ h2) [])"

definition sorted_hits :: "hit list \<Rightarrow> hit list \<Rightarrow> hit list" where
  "sorted_hits h1 h2 = sorted_reverse hit_score (deduped_hits h1 h2)"

definition merge_chunks :: "hit list \<Rightarrow> hit list \<Rightarrow> candidate list" where
  "merge_chunks h1 h2 =
     map (\<lambda>h. \<lparr>cand_id = hit_id h, cand_chunk_text = hit_chunk_text h\<rparr>) (sorted_hits h1 h2)"

subsection \<open>\<open>__usage_metadata\<close>\<close>

definition usage_metadata :: "env \<Rightarrow> int \<Rightarrow> int \<Rightarrow> (error + unit) \<times> effect list" where
  "usage_metadata env inp outp =
     (if get_current_run_tree env then
        (let metadata =
               \<lparr>ls_model_name = model_id env,
                ls_model_type = ''llm'',
                ls_provider = ''google_genai'',
                ls_run_depth = 0,
                ls_temperature = 7 / 10,
                md_usage_metadata =
                  \<lparr>um_input_tokens = inp, um_output_tokens = outp,
                   um_total_tokens = inp + outp\<rparr>,
                invocation_model = model_id env\<rparr>
         in (case run_add_metadata env metadata of
               Some e \<Rightarrow> (Inl e, [AddMetadata metadata])
             | None \<Rightarrow> (Inr (), [AddMetadata metadata])))
      else (Inr (), []))"

subsection \<open>\<open>check_context_node\<close>\<close>

text \<open>\<open>message.content[0]["text"]\<close>.\<close>

definition first_text :: "ai_message \<Rightarrow> error + string" where
  "first_text m =
     (case msg_content m of
        [] \<Rightarrow> Inl IndexError
      | block # _ \<Rightarrow>
          (case map_of block ''text'' of
             None \<Rightarrow> Inl (KeyError ''text'')
           | Some t \<Rightarrow> Inr t))"

definition check_context_node :: "env \<Rightarrow> graph_state \<Rightarrow> (error + update) \<times> effect list" where
  "check_context_node env state =
     (case client_invoke env (prompt state) of
        Inl e \<Rightarrow> (Inl e, [ModelInvoke (prompt state)])
      | Inr response \<Rightarrow>
          (case msg_usage_metadata response of
             None \<Rightarrow> (Inl TypeError, [ModelInvoke (prompt state)])
           | Some u \<Rightarrow>
               (case usage_metadata env (input_tokens u) (output_tokens u) of
                  (Inl e, fx) \<Rightarrow> (Inl e, ModelInvoke (prompt state) # fx)
                | (Inr _, fx) \<Rightarrow>
                    (case first_text response of
                       Inl e \<Rightarrow> (Inl e, ModelInvoke (prompt state) # fx)
                     | Inr t \<Rightarrow>
                         (Inr (no_update\<lparr>upd_has_context := Some (str_in ''YES'' (str_upper t))\<rparr>),
                          ModelInvoke (prompt state) # fx)))))"

subsection \<open>\<open>retrieve_rag_node\<close>\<close>

definition dense_name :: string where
  "dense_name = ''dense-for-hybrid-knowledge-base-index''"

definition sparse_name :: string where
  "sparse_name = ''sparse-for-hybrid-knowledge-base-index''"

definition retrieve_rag_node :: "env \<Rightarrow> graph_state \<Rightarrow> (error + update) \<times> effect list" where
  "retrieve_rag_node env state =
     (let query = str_lower (prompt state) in
      case pinecone_index env dense_name of
        Some e \<Rightarrow> (Inl e, [PineconeIndex dense_name])
      | None \<Rightarrow>
      (case pinecone_index env sparse_name of
        Some e \<Rightarrow> (Inl e, [PineconeIndex dense_name, PineconeIndex sparse_name])
      | None \<Rightarrow>
      (case index_search env dense_name query of
        Inl e \<Rightarrow>
          (Inl e, [PineconeIndex dense_name, PineconeIndex sparse_name,
                   IndexSearch dense_name query])
      | Inr dense_results \<Rightarrow>
      (case index_search env sparse_name query of
        Inl e \<Rightarrow>
          (Inl e, [PineconeIndex dense_name, PineconeIndex sparse_name,
                   IndexSearch dense_name query, IndexSearch sparse_name query])
      | Inr sparse_results \<Rightarrow>
          if length dense_results = 0 \<and> length sparse_results = 0 then
            (Inr (no_update\<lparr>upd_has_documents := Some False\<rparr>),
             [PineconeIndex dense_name, PineconeIndex sparse_name,
              IndexSearch dense_name query, IndexSearch sparse_name query])
          else
            (let merged_results = merge_chunks sparse_results dense_results;
                 fx = [PineconeIndex dense_name, PineconeIndex sparse_name,
                       IndexSearch dense_name query, IndexSearch sparse_name query,
                       Rerank query merged_results]
             in case inference_rerank env query merged_results of
                  Inl e \<Rightarrow> (Inl e, fx)
                | Inr docs \<Rightarrow>
                    (Inr (no_update\<lparr>upd_has_documents := Some (docs \<noteq> []),
                                    upd_documents := Some docs\<rparr>), fx))))))"

subsection \<open>\<open>generate_answer_node\<close>\<close>

text \<open>
  The body of \<open>async for chunk in self.__client.astream(messages)\<close>, with the three
  accumulators \<open>response_text\<close>, \<open>input_tokens\<close> and \<open>output_tokens\<close>; every
  \<open>writer({"answer": ...})\<close> is a \<^const>\<open>StreamWrite\<close>.
\<close>

fun consume_chunks ::
  "ai_message list \<Rightarrow> string \<times> int \<times> int \<Rightarrow> (error + string \<times> int \<times> int) \<times> effect list"
where
  "consume_chunks [] acc = (Inr acc, [])"
| "consume_chunks (chunk # chunks) (response_text, inp, outp) =
     (if msg_content chunk \<noteq> [] then
        (case first_text chunk of
           Inl e \<Rightarrow> (Inl e, [])
         | Inr t \<Rightarrow>
             (let (inp', outp') =
                    (case msg_usage_metadata chunk of
                       Some u \<Rightarrow> (inp + input_tokens u, outp + output_tokens u)
                     | None \<Rightarrow> (inp, outp));
                  (r, fx) = consume_chunks chunks (response_text @ t, inp', outp')
              in (r, StreamWrite [(''answer'', t)] # fx)))
      else
        (let (inp', outp') =
               (case msg_usage_metadata chunk of
                  Some u \<Rightarrow> (inp + input_tokens u, outp + output_tokens u)
                | None \<Rightarrow> (inp, outp))
         in consume_chunks chunks (response_text, inp', outp')))"

definition newline :: string where
  "newline = [CHR 0x0A]"

definition generate_answer_node :: "env \<Rightarrow> graph_state \<Rightarrow> (error + update) \<times> effect list" where
  "generate_answer_node env state =
     (case documents state of
        None \<Rightarrow> (Inl (KeyError ''documents''), [])
      | Some docs \<Rightarrow>
          (let context_text = str_join newline (map (\<lambda>doc. cand_chunk_text (rank_document doc)) docs);
               (chunks, failure) = client_astream env context_text (prompt state);
               call = ModelStream context_text (prompt state)
           in case consume_chunks chunks ([], 0, 0) of
                (Inl e, fx) \<Rightarrow> (Inl e, call # fx)
              | (Inr (response_text, inp, outp), fx) \<Rightarrow>
                  (case failure of
                     Some e \<Rightarrow> (Inl e, call # fx)
                   | None \<Rightarrow>
                       (case usage_metadata env inp outp of
                          (Inl e, fx') \<Rightarrow> (Inl e, call # fx @ fx')
                        | (Inr _, fx') \<Rightarrow>
                            (Inr (no_update\<lparr>upd_answer := Some response_text\<rparr>),
                             call # fx @ fx')))))"

subsection \<open>\<open>cannot_answer_node\<close> and the two conditions\<close>

definition refusal_text :: string where
  "refusal_text = ''I'' @ [CHR 0x27] @ ''m sorry, but I cannot provide an answer based on the given input.''"

definition cannot_answer_node :: "graph_state \<Rightarrow> (error + update) \<times> effect list" where
  "cannot_answer_node _ = (Inr (no_update\<lparr>upd_answer := Some refusal_text\<rparr>), [])"

definition check_context_condition :: "graph_state \<Rightarrow> error + string" where
  "check_context_condition state =
     (case has_context state of
        None \<Rightarrow> Inl (KeyError ''has_context'')
      | Some b \<Rightarrow> Inr (if b then ''has_context'' else ''no_context''))"

definition retrieve_rag_condition :: "graph_state \<Rightarrow> error + string" where
  "retrieve_rag_condition state =
     (case has_documents state of
        None \<Rightarrow> Inl (KeyError ''has_documents'')
      | Some b \<Rightarrow> Inr (if b then ''has_documents'' else ''no_documents''))"

subsection \<open>The compiled graph\<close>

text \<open>
  \<open>__build_graph\<close> registers four nodes, enters at \<open>check_context\<close>, and gives
  \<open>check_context\<close> and \<open>retrieve_rag\<close> a conditional edge each and \<open>generate_answer\<close> an
  edge to \<open>END\<close>; \<open>cannot_answer\<close> has no outgoing edge, so the run ends after it.
\<close>

datatype node = CheckContext | RetrieveRag | GenerateAnswer | CannotAnswer

definition node_name :: "node \<Rightarrow> string" where
  "node_name n =
     (case n of
        CheckContext \<Rightarrow> ''check_context''
      | RetrieveRag \<Rightarrow> ''retrieve_rag''
      | GenerateAnswer \<Rightarrow> ''generate_answer''
      | CannotAnswer \<Rightarrow> ''cannot_answer'')"

definition run_node :: "env \<Rightarrow> node \<Rightarrow> graph_state \<Rightarrow> (error + update) \<times> effect list" where
  "run_node env n state =
     (case n of
        CheckContext \<Rightarrow> check_context_node env state
      | RetrieveRag \<Rightarrow> retrieve_rag_node env state
      | GenerateAnswer \<Rightarrow> generate_answer_node env state
      | CannotAnswer \<Rightarrow> cannot_answer_node state)"

text \<open>The node that follows \<open>n\<close> in state \<open>state\<close>; \<^const>\<open>None\<close> ends the run.\<close>

definition next_node :: "node \<Rightarrow> graph_state \<Rightarrow> error + node option" where
  "next_node n state =
     (case n of
        CheckContext \<Rightarrow>
          (case check_context_condition state of
             Inl e \<Rightarrow> Inl e
           | Inr branch \<Rightarrow>
               (case map_of [(''has_context'', RetrieveRag), (''no_context'', CannotAnswer)] branch of
                  None \<Rightarrow> Inl (KeyError branch)
                | Some n' \<Rightarrow> Inr (Some n')))
      | RetrieveRag \<Rightarrow>
          (case retrieve_rag_condition state of
             Inl e \<Rightarrow> Inl e
           | Inr branch \<Rightarrow>
               (case map_of [(''has_documents'', GenerateAnswer), (''no_documents'', CannotAnswer)] branch of
                  None \<Rightarrow> Inl (KeyError branch)
                | Some n' \<Rightarrow> Inr (Some n')))
      | GenerateAnswer \<Rightarrow> Inr None
      | CannotAnswer \<Rightarrow> Inr None)"

text \<open>
  What \<open>self.__app.astream\<close> yields under the six stream modes: pairs of a mode and a chunk.
  A \<open>values\<close> chunk is the whole state (first the input, then the state after each step), a
  \<open>custom\<close> chunk is the dictionary a node passed to the stream writer, an \<open>updates\<close> chunk
  maps the node's name to what it returned. The chunks of \<open>messages\<close>, \<open>checkpoints\<close> and
  \<open>tasks\<close> are not dictionaries of the state; they are kept as \<^term>\<open>Opaque\<close> placeholders, one
  per model call and two \<open>tasks\<close> and one \<open>checkpoints\<close> per step.
\<close>

datatype chunk =
    StateChunk graph_state
  | WriterChunk "string dict"
  | UpdateChunk "update dict"
  | Opaque

type_synonym event = "string \<times> chunk"

fun effect_events :: "effect \<Rightarrow> event list" where
  "effect_events (StreamWrite d) = [(''custom'', WriterChunk d)]"
| "effect_events (ModelInvoke _) = [(''messages'', Opaque)]"
| "effect_events (ModelStream _ _) = [(''messages'', Opaque)]"
| "effect_events _ = []"

definition step_events :: "node \<Rightarrow> effect list \<Rightarrow> update \<Rightarrow> graph_state \<Rightarrow> event list" where
  "step_events n fx u state' =
     [(''tasks'', Opaque)] @ concat (map effect_events fx) @
     [(''tasks'', Opaque),
      (''updates'', UpdateChunk [(node_name n, u)]),
      (''checkpoints'', Opaque),
      (''values'', StateChunk state')]"

definition failed_step_events :: "effect list \<Rightarrow> event list" where
  "failed_step_events fx = [(''tasks'', Opaque)] @ concat (map effect_events fx)"

record run_result =
  events :: "event list"
  raised :: "error option"
  final_state :: graph_state
  effects :: "effect list"
  path :: "node list"

definition node_rank :: "node \<Rightarrow> nat" where
  "node_rank n = (case n of CheckContext \<Rightarrow> 3 | RetrieveRag \<Rightarrow> 2 | GenerateAnswer \<Rightarrow> 1 | CannotAnswer \<Rightarrow> 0)"

function run_from :: "env \<Rightarrow> node \<Rightarrow> graph_state \<Rightarrow> run_result" where
  "run_from env n state =
     (case run_node env n state of
        (Inl e, fx) \<Rightarrow>
          \<lparr>events = failed_step_events fx, raised = Some e, final_state = state,
           effects = fx, path = [n]\<rparr>
      | (Inr u, fx) \<Rightarrow>
          (let state' = apply_update state u;
               evs = step_events n fx u state'
           in case next_node n state' of
                Inl e \<Rightarrow>
                  \<lparr>events = evs, raised = Some e, final_state = state', effects = fx, path = [n]\<rparr>
              | Inr None \<Rightarrow>
                  \<lparr>events = evs, raised = None, final_state = state', effects = fx, path = [n]\<rparr>
              | Inr (Some n') \<Rightarrow>
                  (let r = run_from env n' state'
                   in r\<lparr>events := evs @ events r, effects := fx @ effects r,
                        path := n # path r\<rparr>)))"
  by pat_completeness auto
termination
proof (relation "measure (\<lambda>(env, n, state). node_rank n)")
  show "wf (measure (\<lambda>(env, n, state). node_rank n))"
    by simp
next
  fix env :: env and n :: node and state :: graph_state
    and x :: "(error + update) \<times> effect list" and r fx u state' evs nn n'
  assume "next_node n state' = Inr nn" and "nn = Some n'"
  then have "node_rank n' < node_rank n"
    by (auto simp: next_node_def node_rank_def
             split: node.splits sum.splits option.splits if_splits)
  then show "((env, n', state'), env, n, state) \<in> measure (\<lambda>(env, n, state). node_rank n)"
    by simp
qed

declare run_from.simps [simp del]

text \<open>The input of a run, \<open>{"prompt": prompt}\<close>.\<close>

definition input_state :: "string \<Rightarrow> graph_state" where
  "input_state p =
     \<lparr>prompt = p, answer = None, has_context = None, has_documents = None, documents = None\<rparr>"

definition astream :: "env \<Rightarrow> string \<Rightarrow> run_result" where
  "astream env p =
     (let r = run_from env CheckContext (input_state p)
      in r\<lparr>events := (''values'', StateChunk (input_state p)) # events r\<rparr>)"

subsection \<open>\<open>stream\<close>\<close>

text \<open>\<open>chunk.get("answer")\<close>; only a dictionary has \<open>get\<close>.\<close>

definition chunk_get_answer :: "chunk \<Rightarrow> error + string option" where
  "chunk_get_answer c =
     (case c of
        StateChunk state \<Rightarrow> Inr (answer state)
      | WriterChunk d \<Rightarrow> Inr (map_of d ''answer'')
      | UpdateChunk d \<Rightarrow> Inr None
      | Opaque \<Rightarrow> Inl AttributeError)"

text \<open>The loop of \<open>stream\<close> over the events: the fragments it yields, and the exception if it raises.\<close>

fun yield_answers :: "event list \<Rightarrow> string list \<times> error option" where
  "yield_answers [] = ([], None)"
| "yield_answers ((stream_mode, c) # rest) =
     (if stream_mode \<in> set [''custom'', ''values''] then
        (case chunk_get_answer c of
           Inl e \<Rightarrow> ([], Some e)
         | Inr None \<Rightarrow> yield_answers rest
         | Inr (Some a) \<Rightarrow>
             (if a \<noteq> [] then (let (ys, e) = yield_answers rest in (a # ys, e))
              else yield_answers rest))
      else yield_answers rest)"

definition stream :: "env \<Rightarrow> string \<Rightarrow> string list \<times> error option" where
  "stream env p =
     (let r = astream env p
      in case yield_answers (events r) of
           (ys, Some e) \<Rightarrow> (ys, Some e)
         | (ys, None) \<Rightarrow> (ys, raised r))"

subsection \<open>Kinds of calls\<close>

fun is_retrieval_call :: "effect \<Rightarrow> bool" where
  "is_retrieval_call (PineconeIndex _) = True"
| "is_retrieval_call (IndexSearch _ _) = True"
| "is_retrieval_call (Rerank _ _) = True"
| "is_retrieval_call _ = False"

fun is_rerank_call :: "effect \<Rightarrow> bool" where
  "is_rerank_call (Rerank _ _) = True"
| "is_rerank_call _ = False"

fun is_generation_call :: "effect \<Rightarrow> bool" where
  "is_generation_call (ModelStream _ _) = True"
| "is_generation_call (StreamWrite _) = True"
| "is_generation_call _ = False"

section \<open>Ingestion: \<open>KnowledgeBaseService\<close> and its route\<close>
















section \<open>Example environments\<close>

text \<open>
  A run in which the model judges the prompt answerable, the dense index returns one hit,
  the sparse index returns the same identifier with another score and one more hit, the
  reranker keeps at most ten candidates, and the model streams its answer in two
  fragments followed by a chunk that carries the token counts only.
\<close>

definition text_message :: "string \<Rightarrow> usage option \<Rightarrow> ai_message" where
  "text_message t u = \<lparr>msg_content = [[(''type'', ''text''), (''text'', t)]], msg_usage_metadata = u\<rparr>"

definition dense_example :: "hit list" where
  "dense_example =
     [\<lparr>hit_id = ''a'', hit_score = 9 / 10, hit_chunk_text = ''Paris is the capital of France.''\<rparr>]"

definition sparse_example :: "hit list" where
  "sparse_example =
     [\<lparr>hit_id = ''a'', hit_score = 1 / 2, hit_chunk_text = ''Paris (sparse copy)''\<rparr>,
      \<lparr>hit_id = ''b'', hit_score = 7 / 10, hit_chunk_text = ''Lyon is a city in France.''\<rparr>]"

definition example_env :: env where
  "example_env =
     \<lparr>model_id = ''us.amazon.nova-2-lite-v1:0'',
      client_invoke = (\<lambda>p. Inr (text_message ''YES'' (Some \<lparr>input_tokens = 40, output_tokens = 1\<rparr>))),
      client_astream =
        (\<lambda>context question.
           ([text_message ''Par'' None, text_message ''is'' None,
             \<lparr>msg_content = [], msg_usage_metadata = Some \<lparr>input_tokens = 90, output_tokens = 2\<rparr>\<rparr>],
            None)),
      pinecone_index = (\<lambda>name. None),
      index_search =
        (\<lambda>name query. if name = dense_name then Inr dense_example else Inr sparse_example),
      inference_rerank =
        (\<lambda>query cands. Inr (map (\<lambda>c. \<lparr>rank_score = 1, rank_document = c\<rparr>) (take 10 cands))),
      get_current_run_tree = True,
      run_add_metadata = (\<lambda>metadata. None)\<rparr>"

text \<open>The same run with a negative verdict, with two empty indexes, and with a failing tracing run.\<close>

definition no_context_env :: env where
  "no_context_env =
     example_env\<lparr>client_invoke :=
       (\<lambda>p. Inr (text_message ''No.'' (Some \<lparr>input_tokens = 40, output_tokens = 2\<rparr>)))\<rparr>"

definition empty_index_env :: env where
  "empty_index_env = example_env\<lparr>index_search := (\<lambda>name query. Inr [])\<rparr>"

definition failing_sink_env :: env where
  "failing_sink_env =
     example_env\<lparr>run_add_metadata := (\<lambda>metadata. Some (ServiceError ''tracing unavailable''))\<rparr>"



section \<open>Properties\<close>

subsection \<open>Merging the hits\<close>

lemma sorted_reverse_set: "set (sorted_reverse f xs) = set xs"
  by (simp add: sorted_reverse_def)

lemma sorted_reverse_distinct_map:
  "distinct (map g (sorted_reverse f xs)) = distinct (map g xs)"
  by (simp add: sorted_reverse_def distinct_map)



lemma dict_keys_set:
  "fst ` set (fold (\<lambda>h d. AList.update (hit_id h) h d) xs d) = fst ` set d \<union> hit_id ` set xs"
  by (induction xs arbitrary: d) (simp_all add: dom_update Un_ac)


lemma dict_keys_distinct:
  "distinct (map fst d) \<Longrightarrow> distinct (map fst (fold (\<lambda>h d. AList.update (hit_id h) h d) xs d))"
  by (induction xs arbitrary: d) (auto simp: distinct_update)

lemma dict_entries_keyed:
  "\<forall>(k, h) \<in> set d. hit_id h = k \<Longrightarrow>
   \<forall>(k, h) \<in> set (fold (\<lambda>h d. AList.update (hit_id h) h d) xs d). hit_id h = k"
proof (induction xs arbitrary: d)
  case Nil
  then show ?case by simp
next
  case (Cons x xs)
  have "\<forall>(k, h) \<in> set (AList.update (hit_id x) x d). hit_id h = k"
    using Cons.prems by (induction d) (auto split: if_splits)
  then show ?case using Cons.IH by simp
qed

lemma dict_lookup:
  "map_of (fold (\<lambda>h d. AList.update (hit_id h) h d) xs d)
     = map_of d ++ map_of (rev (map (\<lambda>h. (hit_id h, h)) xs))"
proof (induction xs arbitrary: d)
  case Nil
  then show ?case by simp
next
  case (Cons x xs)
  show ?case
    by (simp add: Cons.IH update_conv' map_add_upd_left fun_eq_iff map_add_def split: option.splits)
qed

lemma last_wins:
  "map_of (rev (map (\<lambda>h. (f h, h)) xs)) k
     = (if k \<in> f ` set xs then Some (last (filter (\<lambda>h. f h = k) xs)) else None)"
  by (induction xs rule: rev_induct) auto

lemma deduped_ids: "map hit_id (deduped_hits h1 h2)
   = map fst (fold (\<lambda>h d. AList.update (hit_id h) h d) (h1 @ h2) [])"
proof -
  have "\<forall>(k, h) \<in> set (fold (\<lambda>h d. AList.update (hit_id h) h d) (h1 @ h2) []). hit_id h = k"
    by (rule dict_entries_keyed) simp
  then show ?thesis
    unfolding deduped_hits_def by (auto simp: map_eq_conv)
qed

lemma deduped_distinct: "distinct (map hit_id (deduped_hits h1 h2))"
  by (simp only: deduped_ids) (rule dict_keys_distinct, simp)

lemma deduped_id_set: "set (map hit_id (deduped_hits h1 h2)) = hit_id ` set (h1 @ h2)"
  by (simp add: deduped_ids dict_keys_set image_Un)

lemma deduped_last:
  assumes "h \<in> set (deduped_hits h1 h2)"
  shows "h = last (filter (\<lambda>x. hit_id x = hit_id h) (h1 @ h2))"
proof -
  let ?d = "fold (\<lambda>h d. AList.update (hit_id h) h d) (h1 @ h2) []"
  from assms obtain k where kh: "(k, h) \<in> set ?d"
    by (auto simp: deduped_hits_def)
  have keyed: "\<forall>(k, h) \<in> set ?d. hit_id h = k"
    by (rule dict_entries_keyed) simp
  with kh have k: "k = hit_id h" by auto
  have "distinct (map fst ?d)" by (rule dict_keys_distinct) simp
  with kh have "map_of ?d k = Some h" by simp
  then have "map_of (rev (map (\<lambda>h. (hit_id h, h)) (h1 @ h2))) k = Some h"
    by (simp add: dict_lookup)
  then show ?thesis
    unfolding last_wins k by (simp split: if_splits)
qed

lemma filter_single:
  "distinct (map f xs) \<Longrightarrow> x \<in> set xs \<Longrightarrow> filter (\<lambda>y. f y = f x) xs = [x]"
proof (induction xs)
  case Nil
  then show ?case by simp
next
  case (Cons a xs)
  show ?case
  proof (cases "a = x")
    case True
    from Cons.prems(1) True have "f x \<notin> f ` set xs" by simp
    then have "\<forall>y\<in>set xs. f y \<noteq> f x"
      by (metis imageI)
    then have "filter (\<lambda>y. f y = f x) xs = []"
      by (simp add: filter_empty_conv)
    then show ?thesis using True by simp
  next
    case False
    then have "x \<in> set xs" using Cons.prems(2) by simp
    moreover have "f a \<noteq> f x" using Cons.prems(1) \<open>x \<in> set xs\<close> by auto
    ultimately show ?thesis using Cons by simp
  qed
qed

lemma sorted_hits_set: "set (sorted_hits h1 h2) = set (deduped_hits h1 h2)"
  by (simp add: sorted_hits_def sorted_reverse_set)

lemma sorted_hits_distinct: "distinct (map hit_id (sorted_hits h1 h2))"
  by (simp add: sorted_hits_def sorted_reverse_distinct_map deduped_distinct)

lemma sorted_hits_id_set: "hit_id ` set (sorted_hits h1 h2) = hit_id ` set (h1 @ h2)"
  using deduped_id_set [of h1 h2] by (simp add: sorted_hits_set)

lemma sorted_hits_entry:
  assumes "i \<in> hit_id ` set h2"
  shows "filter (\<lambda>h. hit_id h = i) (sorted_hits h1 h2) = [last (filter (\<lambda>d. hit_id d = i) h2)]"
proof -
  from assms have "i \<in> hit_id ` set (sorted_hits h1 h2)"
    by (simp add: sorted_hits_id_set image_Un)
  then obtain h where h: "h \<in> set (sorted_hits h1 h2)" and i: "i = hit_id h"
    by auto
  from assms have ne: "filter (\<lambda>d. hit_id d = i) h2 \<noteq> []"
    by (auto simp: filter_empty_conv)
  from h have "h = last (filter (\<lambda>x. hit_id x = hit_id h) (h1 @ h2))"
    using deduped_last [of h h1 h2] by (simp only: sorted_hits_set)
  with ne i have "h = last (filter (\<lambda>d. hit_id d = i) h2)"
    by simp
  moreover have "filter (\<lambda>y. hit_id y = hit_id h) (sorted_hits h1 h2) = [h]"
    using sorted_hits_distinct h by (rule filter_single)
  ultimately show ?thesis using i by simp
qed

lemma merge_chunks_filter:
  "filter (\<lambda>c. cand_id c = i) (merge_chunks h1 h2)
     = map (\<lambda>h. \<lparr>cand_id = hit_id h, cand_chunk_text = hit_chunk_text h\<rparr>)
           (filter (\<lambda>h. hit_id h = i) (sorted_hits h1 h2))"
  by (simp add: merge_chunks_def filter_map comp_def)



text \<open>
  C9. \<open>retrieve_rag_node\<close> calls \<open>__merge_chunks(sparse_results, dense_results)\<close>, and the
  dictionary keeps the hit inserted last: for an identifier that the dense index
  returned, the one entry that survives is the dense hit (the last one with that
  identifier), with its score and its text, whatever the sparse index returned for it.
\<close>

theorem dense_hit_survives_merge:
  assumes "pinecone_index env dense_name = None"
    and "pinecone_index env sparse_name = None"
    and "index_search env dense_name (str_lower (prompt state)) = Inr dense_results"
    and "index_search env sparse_name (str_lower (prompt state)) = Inr sparse_results"
    and "i \<in> hit_id ` set dense_results"
  shows "Rerank (str_lower (prompt state)) (merge_chunks sparse_results dense_results)
           \<in> set (snd (retrieve_rag_node env state)) \<and>
         filter (\<lambda>h. hit_id h = i) (sorted_hits sparse_results dense_results)
           = [last (filter (\<lambda>d. hit_id d = i) dense_results)] \<and>
         last (filter (\<lambda>d. hit_id d = i) dense_results) \<in> set dense_results \<and>
         filter (\<lambda>c. cand_id c = i) (merge_chunks sparse_results dense_results)
           = [\<lparr>cand_id = i,
               cand_chunk_text = hit_chunk_text (last (filter (\<lambda>d. hit_id d = i) dense_results))\<rparr>]"
proof -
  from assms(5) have ne: "filter (\<lambda>d. hit_id d = i) dense_results \<noteq> []"
    by (auto simp: filter_empty_conv)
  then have "last (filter (\<lambda>d. hit_id d = i) dense_results)
               \<in> set (filter (\<lambda>d. hit_id d = i) dense_results)"
    by (rule last_in_set)
  then have mem: "last (filter (\<lambda>d. hit_id d = i) dense_results) \<in> set dense_results"
    and key: "hit_id (last (filter (\<lambda>d. hit_id d = i) dense_results)) = i"
    by simp_all
  from assms(5) have "dense_results \<noteq> []" by auto
  then have call: "Rerank (str_lower (prompt state)) (merge_chunks sparse_results dense_results)
                     \<in> set (snd (retrieve_rag_node env state))"
    using assms(1-4) by (simp add: retrieve_rag_node_def Let_def split: sum.splits)
  have one: "filter (\<lambda>h. hit_id h = i) (sorted_hits sparse_results dense_results)
               = [last (filter (\<lambda>d. hit_id d = i) dense_results)]"
    using assms(5) by (rule sorted_hits_entry)
  have "filter (\<lambda>c. cand_id c = i) (merge_chunks sparse_results dense_results)
          = [\<lparr>cand_id = i,
              cand_chunk_text = hit_chunk_text (last (filter (\<lambda>d. hit_id d = i) dense_results))\<rparr>]"
    by (simp only: merge_chunks_filter one) (simp add: key)
  with call one mem show ?thesis by simp
qed

theorem dense_hit_survives_merge_witness:
  "pinecone_index example_env dense_name = None \<and>
   pinecone_index example_env sparse_name = None \<and>
   index_search example_env dense_name (str_lower ''Paris?'') = Inr dense_example \<and>
   index_search example_env sparse_name (str_lower ''Paris?'') = Inr sparse_example \<and>
   ''a'' \<in> hit_id ` set dense_example \<and> ''a'' \<in> hit_id ` set sparse_example \<and>
   filter (\<lambda>h. hit_id h = ''a'') (sorted_hits sparse_example dense_example)
     = [\<lparr>hit_id = ''a'', hit_score = 9 / 10, hit_chunk_text = ''Paris is the capital of France.''\<rparr>] \<and>
   filter (\<lambda>c. cand_id c = ''a'') (merge_chunks sparse_example dense_example)
     = [\<lparr>cand_id = ''a'', cand_chunk_text = ''Paris is the capital of France.''\<rparr>]"
  using dense_hit_survives_merge
          [of example_env
              "\<lparr>prompt = ''Paris?'', answer = None, has_context = Some True,
                has_documents = None, documents = None\<rparr>"
              dense_example sparse_example "''a''"]
  by (simp add: example_env_def dense_example_def sparse_example_def dense_name_def
                sparse_name_def)

subsection \<open>Running the graph\<close>

lemma run_from_raise:
  "run_node env n state = (Inl e, fx) \<Longrightarrow>
   run_from env n state =
     \<lparr>events = failed_step_events fx, raised = Some e, final_state = state,
      effects = fx, path = [n]\<rparr>"
  by (subst run_from.simps) simp

lemma run_from_last:
  "run_node env n state = (Inr u, fx) \<Longrightarrow> next_node n (apply_update state u) = Inr None \<Longrightarrow>
   run_from env n state =
     \<lparr>events = step_events n fx u (apply_update state u), raised = None,
      final_state = apply_update state u, effects = fx, path = [n]\<rparr>"
  by (subst run_from.simps) (simp add: Let_def)

lemma run_from_next:
  "run_node env n state = (Inr u, fx) \<Longrightarrow>
   next_node n (apply_update state u) = Inr (Some n') \<Longrightarrow>
   run_from env n state =
     (run_from env n' (apply_update state u))
       \<lparr>events := step_events n fx u (apply_update state u)
                    @ events (run_from env n' (apply_update state u)),
        effects := fx @ effects (run_from env n' (apply_update state u)),
        path := n # path (run_from env n' (apply_update state u))\<rparr>"
  by (subst run_from.simps) (simp add: Let_def)

lemma yield_answers_append:
  "yield_answers (xs @ ys) =
     (case yield_answers xs of
        (as, Some e) \<Rightarrow> (as, Some e)
      | (as, None) \<Rightarrow> (as @ fst (yield_answers ys), snd (yield_answers ys)))"
  by (induction xs rule: yield_answers.induct)
     (auto split: sum.splits option.splits prod.splits)

lemma check_context_node_text:
  assumes "client_invoke env (prompt state) = Inr response"
    and "msg_usage_metadata response = Some u"
    and "fst (usage_metadata env (input_tokens u) (output_tokens u)) = Inr ()"
    and "first_text response = Inr t"
  shows "check_context_node env state =
           (Inr (no_update\<lparr>upd_has_context := Some (str_in ''YES'' (str_upper t))\<rparr>),
            ModelInvoke (prompt state) # snd (usage_metadata env (input_tokens u) (output_tokens u)))"
proof (cases "usage_metadata env (input_tokens u) (output_tokens u)")
  case (Pair r fx)
  with assms(3) have "r = Inr ()" by simp
  with Pair assms show ?thesis
    by (simp add: check_context_node_def)
qed

lemma cannot_answer_run:
  "run_from env CannotAnswer state =
     \<lparr>events = step_events CannotAnswer [] (no_update\<lparr>upd_answer := Some refusal_text\<rparr>)
                 (state\<lparr>answer := Some refusal_text\<rparr>),
      raised = None, final_state = state\<lparr>answer := Some refusal_text\<rparr>,
      effects = [], path = [CannotAnswer]\<rparr>"
proof -
  have u: "apply_update state (no_update\<lparr>upd_answer := Some refusal_text\<rparr>)
             = state\<lparr>answer := Some refusal_text\<rparr>"
    by (simp add: apply_update_def no_update_def)
  have "run_node env CannotAnswer state = (Inr (no_update\<lparr>upd_answer := Some refusal_text\<rparr>), [])"
    by (simp add: run_node_def cannot_answer_node_def)
  moreover have "next_node CannotAnswer (state\<lparr>answer := Some refusal_text\<rparr>) = Inr None"
    by (simp add: next_node_def)
  ultimately show ?thesis
    using run_from_last [of env CannotAnswer state "no_update\<lparr>upd_answer := Some refusal_text\<rparr>" "[]"]
    by (simp add: u)
qed

lemma refusal_text_nonempty: "refusal_text \<noteq> []"
  by (simp add: refusal_text_def)

lemma yield_effects_quiet:
  "\<not> list_ex is_generation_call fx \<Longrightarrow>
   yield_answers (concat (map effect_events fx) @ rest) = yield_answers rest"
proof (induction fx)
  case Nil
  then show ?case by simp
next
  case (Cons x fx)
  then show ?case
    by (cases x) (simp_all add: chunk_get_answer_def)
qed

lemma yield_step_quiet:
  assumes "\<not> list_ex is_generation_call fx"
  shows "yield_answers (step_events n fx u state') =
           (case answer state' of
              None \<Rightarrow> ([], None)
            | Some a \<Rightarrow> if a \<noteq> [] then ([a], None) else ([], None))"
proof -
  have "yield_answers (step_events n fx u state')
          = yield_answers [(''tasks'', Opaque), (''updates'', UpdateChunk [(node_name n, u)]),
                           (''checkpoints'', Opaque), (''values'', StateChunk state')]"
    using yield_effects_quiet [OF assms] by (simp add: step_events_def)
  then show ?thesis
    by (simp add: chunk_get_answer_def split: option.splits)
qed

lemma usage_metadata_calls:
  "\<not> list_ex is_generation_call (snd (usage_metadata env i outp))"
  "\<not> list_ex is_retrieval_call (snd (usage_metadata env i outp))"
  by (simp_all add: usage_metadata_def Let_def split: option.splits)

lemma input_state_fields:
  "prompt (input_state p) = p"
  "answer (input_state p) = None"
  "has_context (input_state p) = None"
  "has_documents (input_state p) = None"
  "documents (input_state p) = None"
  by (simp_all add: input_state_def)

lemma check_context_run:
  assumes "client_invoke env p = Inr response"
    and "msg_usage_metadata response = Some u"
    and "fst (usage_metadata env (input_tokens u) (output_tokens u)) = Inr ()"
    and "first_text response = Inr t"
  shows "astream env p =
           (let state' = (input_state p)\<lparr>has_context := Some (str_in ''YES'' (str_upper t))\<rparr>;
                fx = ModelInvoke p # snd (usage_metadata env (input_tokens u) (output_tokens u));
                n' = (if str_in ''YES'' (str_upper t) then RetrieveRag else CannotAnswer);
                r = run_from env n' state'
            in r\<lparr>events := (''values'', StateChunk (input_state p))
                              # step_events CheckContext fx
                                  (no_update\<lparr>upd_has_context := Some (str_in ''YES'' (str_upper t))\<rparr>)
                                  state'
                              @ events r,
                  effects := fx @ effects r,
                  path := CheckContext # path r\<rparr>)"
proof -
  let ?b = "str_in ''YES'' (str_upper t)"
  let ?u = "no_update\<lparr>upd_has_context := Some ?b\<rparr>"
  let ?fx = "ModelInvoke p # snd (usage_metadata env (input_tokens u) (output_tokens u))"
  have p: "prompt (input_state p) = p"
    by (simp add: input_state_def)
  have "check_context_node env (input_state p) = (Inr ?u, ?fx)"
    using check_context_node_text [of env "input_state p" response u t] assms
    by (simp add: p)
  then have node: "run_node env CheckContext (input_state p) = (Inr ?u, ?fx)"
    by (simp add: run_node_def)
  have upd: "apply_update (input_state p) ?u = (input_state p)\<lparr>has_context := Some ?b\<rparr>"
    by (simp add: apply_update_def no_update_def input_state_def)
  have nxt: "next_node CheckContext ((input_state p)\<lparr>has_context := Some ?b\<rparr>)
               = Inr (Some (if ?b then RetrieveRag else CannotAnswer))"
    by (simp add: next_node_def check_context_condition_def)
  show ?thesis
    using run_from_next [OF node, of "if ?b then RetrieveRag else CannotAnswer"] nxt
    by (simp add: astream_def upd Let_def)
qed

text \<open>
  C2. When the model call of the context check returns a text that does not contain
  \<open>YES\<close> in any letter case (a negative or an unparseable verdict) and the usage report
  returns, the run visits \<open>check_context\<close> and \<open>cannot_answer\<close> and ends: the answer and the
  only fragment streamed is the fixed refusal text, and the run makes no call on an index,
  on the reranker or on the streaming model.
\<close>

theorem negative_verdict_refuses:
  assumes "client_invoke env p = Inr response"
    and "msg_usage_metadata response = Some u"
    and "fst (usage_metadata env (input_tokens u) (output_tokens u)) = Inr ()"
    and "first_text response = Inr t"
    and "\<not> str_in ''YES'' (str_upper t)"
  shows "stream env p = ([refusal_text], None) \<and>
         raised (astream env p) = None \<and>
         answer (final_state (astream env p)) = Some refusal_text \<and>
         path (astream env p) = [CheckContext, CannotAnswer] \<and>
         effects (astream env p)
           = ModelInvoke p # snd (usage_metadata env (input_tokens u) (output_tokens u)) \<and>
         \<not> list_ex is_retrieval_call (effects (astream env p)) \<and>
         \<not> list_ex is_generation_call (effects (astream env p))"
proof -
  let ?fx = "ModelInvoke p # snd (usage_metadata env (input_tokens u) (output_tokens u))"
  let ?s1 = "(input_state p)\<lparr>has_context := Some False\<rparr>"
  have run: "astream env p =
          \<lparr>events = (''values'', StateChunk (input_state p))
                     # step_events CheckContext ?fx (no_update\<lparr>upd_has_context := Some False\<rparr>) ?s1
                     @ step_events CannotAnswer [] (no_update\<lparr>upd_answer := Some refusal_text\<rparr>)
                         (?s1\<lparr>answer := Some refusal_text\<rparr>),
           raised = None, final_state = ?s1\<lparr>answer := Some refusal_text\<rparr>,
           effects = ?fx, path = [CheckContext, CannotAnswer]\<rparr>"
    using check_context_run [OF assms(1-4)] assms(5)
    by (simp add: Let_def cannot_answer_run)
  have quiet: "\<not> list_ex is_generation_call ?fx" "\<not> list_ex is_retrieval_call ?fx"
    by (simp_all add: usage_metadata_calls)
  have y1: "yield_answers (step_events CheckContext ?fx (no_update\<lparr>upd_has_context := Some False\<rparr>) ?s1)
              = ([], None)"
    using quiet(1) by (simp add: yield_step_quiet input_state_fields)
  have y2: "yield_answers (step_events CannotAnswer [] (no_update\<lparr>upd_answer := Some refusal_text\<rparr>)
                             (?s1\<lparr>answer := Some refusal_text\<rparr>))
              = ([refusal_text], None)"
    by (simp add: yield_step_quiet refusal_text_nonempty)
  have "yield_answers (events (astream env p)) = ([refusal_text], None)"
    by (simp add: run yield_answers_append y1 y2 chunk_get_answer_def input_state_fields)
  then have "stream env p = ([refusal_text], None)"
    by (simp add: stream_def Let_def run)
  with quiet show ?thesis
    by (simp add: run)
qed

theorem negative_verdict_refuses_witness:
  "client_invoke no_context_env ''Tell me''
     = Inr (text_message ''No.'' (Some \<lparr>input_tokens = 40, output_tokens = 2\<rparr>)) \<and>
   fst (usage_metadata no_context_env 40 2) = Inr () \<and>
   first_text (text_message ''No.'' (Some \<lparr>input_tokens = 40, output_tokens = 2\<rparr>)) = Inr ''No.'' \<and>
   \<not> str_in ''YES'' (str_upper ''No.'') \<and>
   stream no_context_env ''Tell me'' = ([refusal_text], None) \<and>
   path (astream no_context_env ''Tell me'') = [CheckContext, CannotAnswer] \<and>
   \<not> list_ex is_retrieval_call (effects (astream no_context_env ''Tell me'')) \<and>
   \<not> list_ex is_generation_call (effects (astream no_context_env ''Tell me''))"
  using negative_verdict_refuses
          [of no_context_env "''Tell me''"
              "text_message ''No.'' (Some \<lparr>input_tokens = 40, output_tokens = 2\<rparr>)"
              "\<lparr>input_tokens = 40, output_tokens = 2\<rparr>" "''No.''"]
  by (simp add: no_context_env_def example_env_def text_message_def usage_metadata_def
                first_text_def str_upper_def upper_char_def)










lemma retrieve_rag_empty:
  assumes "pinecone_index env dense_name = None"
    and "pinecone_index env sparse_name = None"
    and "index_search env dense_name (str_lower (prompt state)) = Inr []"
    and "index_search env sparse_name (str_lower (prompt state)) = Inr []"
  shows "retrieve_rag_node env state =
           (Inr (no_update\<lparr>upd_has_documents := Some False\<rparr>),
            [PineconeIndex dense_name, PineconeIndex sparse_name,
             IndexSearch dense_name (str_lower (prompt state)),
             IndexSearch sparse_name (str_lower (prompt state))])"
  using assms by (simp add: retrieve_rag_node_def Let_def)

text \<open>
  C4. When the context verdict is positive and both indexes return an empty hit list,
  \<open>retrieve_rag_node\<close> returns \<open>has_documents = False\<close> after the two searches, without a
  call of the reranker, and the run goes on to \<open>cannot_answer\<close>: the stream yields the
  refusal text and nothing else.
\<close>

theorem empty_retrieval_refuses:
  assumes "client_invoke env p = Inr response"
    and "msg_usage_metadata response = Some u"
    and "fst (usage_metadata env (input_tokens u) (output_tokens u)) = Inr ()"
    and "first_text response = Inr t"
    and "str_in ''YES'' (str_upper t)"
    and "pinecone_index env dense_name = None"
    and "pinecone_index env sparse_name = None"
    and "index_search env dense_name (str_lower p) = Inr []"
    and "index_search env sparse_name (str_lower p) = Inr []"
  shows "retrieve_rag_node env ((input_state p)\<lparr>has_context := Some True\<rparr>) =
           (Inr (no_update\<lparr>upd_has_documents := Some False\<rparr>),
            [PineconeIndex dense_name, PineconeIndex sparse_name,
             IndexSearch dense_name (str_lower p), IndexSearch sparse_name (str_lower p)]) \<and>
         stream env p = ([refusal_text], None) \<and>
         raised (astream env p) = None \<and>
         answer (final_state (astream env p)) = Some refusal_text \<and>
         path (astream env p) = [CheckContext, RetrieveRag, CannotAnswer] \<and>
         \<not> list_ex is_rerank_call (effects (astream env p)) \<and>
         \<not> list_ex is_generation_call (effects (astream env p))"
proof -
  let ?fx0 = "ModelInvoke p # snd (usage_metadata env (input_tokens u) (output_tokens u))"
  let ?fx1 = "[PineconeIndex dense_name, PineconeIndex sparse_name,
               IndexSearch dense_name (str_lower p), IndexSearch sparse_name (str_lower p)]"
  let ?s1 = "(input_state p)\<lparr>has_context := Some True\<rparr>"
  let ?u1 = "no_update\<lparr>upd_has_documents := Some False\<rparr>"
  let ?s2 = "?s1\<lparr>has_documents := Some False\<rparr>"
  let ?u2 = "no_update\<lparr>upd_answer := Some refusal_text\<rparr>"
  let ?s3 = "?s2\<lparr>answer := Some refusal_text\<rparr>"
  have p1: "prompt ?s1 = p" by (simp add: input_state_fields)
  have node: "retrieve_rag_node env ?s1 = (Inr ?u1, ?fx1)"
    using retrieve_rag_empty [of env ?s1] assms(6-9) by (simp only: p1)
  then have rn: "run_node env RetrieveRag ?s1 = (Inr ?u1, ?fx1)"
    by (simp add: run_node_def)
  have upd: "apply_update ?s1 ?u1 = ?s2"
    by (simp add: apply_update_def no_update_def input_state_def)
  have nxt: "next_node RetrieveRag ?s2 = Inr (Some CannotAnswer)"
    by (simp add: next_node_def retrieve_rag_condition_def)
  have rag: "run_from env RetrieveRag ?s1 =
          \<lparr>events = step_events RetrieveRag ?fx1 ?u1 ?s2 @ step_events CannotAnswer [] ?u2 ?s3,
           raised = None, final_state = ?s3, effects = ?fx1,
           path = [RetrieveRag, CannotAnswer]\<rparr>"
    using run_from_next [OF rn, of CannotAnswer] nxt
    by (simp add: upd cannot_answer_run)
  have run: "astream env p =
          \<lparr>events = (''values'', StateChunk (input_state p))
                     # step_events CheckContext ?fx0 (no_update\<lparr>upd_has_context := Some True\<rparr>) ?s1
                     @ step_events RetrieveRag ?fx1 ?u1 ?s2
                     @ step_events CannotAnswer [] ?u2 ?s3,
           raised = None, final_state = ?s3, effects = ?fx0 @ ?fx1,
           path = [CheckContext, RetrieveRag, CannotAnswer]\<rparr>"
    using check_context_run [OF assms(1-4)] assms(5)
    by (simp add: Let_def rag)
  have q0: "\<not> list_ex is_generation_call ?fx0"
    by (simp add: usage_metadata_calls)
  have q1: "\<not> list_ex is_generation_call ?fx1"
    by simp
  have r0: "\<not> list_ex is_rerank_call ?fx0"
    by (simp add: usage_metadata_def Let_def split: option.splits)
  have y0: "yield_answers (step_events CheckContext ?fx0 (no_update\<lparr>upd_has_context := Some True\<rparr>) ?s1)
              = ([], None)"
    using q0 by (simp add: yield_step_quiet input_state_fields)
  have y1: "yield_answers (step_events RetrieveRag ?fx1 ?u1 ?s2) = ([], None)"
    using q1 by (simp add: yield_step_quiet input_state_fields)
  have y2: "yield_answers (step_events CannotAnswer [] ?u2 ?s3) = ([refusal_text], None)"
    by (simp add: yield_step_quiet refusal_text_nonempty)
  have "yield_answers (events (astream env p)) = ([refusal_text], None)"
    by (simp add: run yield_answers_append y0 y1 y2 chunk_get_answer_def input_state_fields)
  then have "stream env p = ([refusal_text], None)"
    by (simp add: stream_def Let_def run)
  with node q0 r0 show ?thesis
    by (simp add: run)
qed

theorem empty_retrieval_refuses_witness:
  "client_invoke empty_index_env ''What is the capital of France?''
     = Inr (text_message ''YES'' (Some \<lparr>input_tokens = 40, output_tokens = 1\<rparr>)) \<and>
   fst (usage_metadata empty_index_env 40 1) = Inr () \<and>
   str_in ''YES'' (str_upper ''YES'') \<and>
   index_search empty_index_env dense_name (str_lower ''What is the capital of France?'') = Inr [] \<and>
   index_search empty_index_env sparse_name (str_lower ''What is the capital of France?'') = Inr [] \<and>
   stream empty_index_env ''What is the capital of France?'' = ([refusal_text], None) \<and>
   path (astream empty_index_env ''What is the capital of France?'')
     = [CheckContext, RetrieveRag, CannotAnswer] \<and>
   \<not> list_ex is_rerank_call (effects (astream empty_index_env ''What is the capital of France?''))"
  using empty_retrieval_refuses
          [of empty_index_env "''What is the capital of France?''"
              "text_message ''YES'' (Some \<lparr>input_tokens = 40, output_tokens = 1\<rparr>)"
              "\<lparr>input_tokens = 40, output_tokens = 1\<rparr>" "''YES''"]
  by (simp add: empty_index_env_def example_env_def text_message_def usage_metadata_def
                first_text_def str_upper_def upper_char_def)

lemma retrieve_rag_node_returns:
  assumes "retrieve_rag_node env state = (Inr u, fx)"
  shows "(\<not> list_ex is_rerank_call fx \<and> u = no_update\<lparr>upd_has_documents := Some False\<rparr>) \<or>
         (\<exists>q c ds. Rerank q c \<in> set fx \<and> inference_rerank env q c = Inr ds \<and>
            u = no_update\<lparr>upd_has_documents := Some (ds \<noteq> []), upd_documents := Some ds\<rparr>)"
proof -
  let ?q = "str_lower (prompt state)"
  from assms obtain dense_results sparse_results
    where d: "index_search env dense_name ?q = Inr dense_results"
      and s: "index_search env sparse_name ?q = Inr sparse_results"
      and h: "pinecone_index env dense_name = None" "pinecone_index env sparse_name = None"
    by (auto simp: retrieve_rag_node_def Let_def split: option.splits sum.splits)
  show ?thesis
  proof (cases "dense_results = [] \<and> sparse_results = []")
    case True
    with assms d s h show ?thesis
      by (auto simp: retrieve_rag_node_def Let_def)
  next
    case False
    with assms d s h show ?thesis
      by (auto simp: retrieve_rag_node_def Let_def split: sum.splits)
  qed
qed

text \<open>
  C6. Whenever \<open>retrieve_rag_node\<close> returns, either it called the reranker, \<open>documents\<close> is the
  reranked list and \<open>has_documents\<close> says whether that list is non-empty, or it did not
  call the reranker, \<open>has_documents\<close> is false and \<open>documents\<close> is absent. So
  \<open>has_documents\<close> is true exactly when \<open>documents\<close> is a non-empty list, and false exactly
  when \<open>documents\<close> is absent or empty; the state after the step carries these values
  (a run enters the step with no \<open>documents\<close> key).
\<close>

theorem retrieval_state_invariant:
  assumes "retrieve_rag_node env state = (Inr u, fx)"
  shows "((\<exists>q c ds. Rerank q c \<in> set fx \<and> inference_rerank env q c = Inr ds \<and>
                     upd_documents u = Some ds \<and> upd_has_documents u = Some (ds \<noteq> [])) \<or>
          (\<not> list_ex is_rerank_call fx \<and> upd_documents u = None \<and>
             upd_has_documents u = Some False)) \<and>
         (upd_has_documents u = Some True \<longleftrightarrow> (\<exists>ds. upd_documents u = Some ds \<and> ds \<noteq> [])) \<and>
         (upd_has_documents u = Some False \<longleftrightarrow>
            upd_documents u = None \<or> upd_documents u = Some []) \<and>
         has_documents (apply_update state u) = upd_has_documents u \<and>
         (documents state = None \<longrightarrow> documents (apply_update state u) = upd_documents u)"
proof -
  from retrieve_rag_node_returns [OF assms]
  consider (empty) "\<not> list_ex is_rerank_call fx" "u = no_update\<lparr>upd_has_documents := Some False\<rparr>"
    | (ranked) q c ds where "Rerank q c \<in> set fx" "inference_rerank env q c = Inr ds"
        "u = no_update\<lparr>upd_has_documents := Some (ds \<noteq> []), upd_documents := Some ds\<rparr>"
    by blast
  then show ?thesis
  proof cases
    case empty
    then show ?thesis
      by (simp add: no_update_def apply_update_def)
  next
    case ranked
    have "\<exists>q c ds'. Rerank q c \<in> set fx \<and> inference_rerank env q c = Inr ds' \<and>
            upd_documents u = Some ds' \<and> upd_has_documents u = Some (ds' \<noteq> [])"
      using ranked by (intro exI [of _ q] exI [of _ c] exI [of _ ds]) (simp add: no_update_def)
    moreover have "upd_has_documents u = Some (ds \<noteq> [])" "upd_documents u = Some ds"
      using ranked(3) by (simp_all add: no_update_def)
    ultimately show ?thesis
      by (simp add: apply_update_def) 
  qed
qed

theorem retrieval_state_invariant_witness:
  "retrieve_rag_node example_env ((input_state ''Paris?'')\<lparr>has_context := Some True\<rparr>)
     = (Inr (no_update\<lparr>upd_has_documents := Some True,
                   upd_documents := Some [\<lparr>rank_score = 1, rank_document =
                     \<lparr>cand_id = ''a'', cand_chunk_text = ''Paris is the capital of France.''\<rparr>\<rparr>,
                     \<lparr>rank_score = 1, rank_document =
                     \<lparr>cand_id = ''b'', cand_chunk_text = ''Lyon is a city in France.''\<rparr>\<rparr>]\<rparr>),
        [PineconeIndex dense_name, PineconeIndex sparse_name,
         IndexSearch dense_name ''paris?'', IndexSearch sparse_name ''paris?'',
         Rerank ''paris?''
           [\<lparr>cand_id = ''a'', cand_chunk_text = ''Paris is the capital of France.''\<rparr>,
            \<lparr>cand_id = ''b'', cand_chunk_text = ''Lyon is a city in France.''\<rparr>]]) \<and>
   documents ((input_state ''Paris?'')\<lparr>has_context := Some True\<rparr>) = None \<and>
   has_documents
     (apply_update ((input_state ''Paris?'')\<lparr>has_context := Some True\<rparr>)
        (no_update\<lparr>upd_has_documents := Some True,
                   upd_documents := Some [\<lparr>rank_score = 1, rank_document =
                     \<lparr>cand_id = ''a'', cand_chunk_text = ''Paris is the capital of France.''\<rparr>\<rparr>,
                     \<lparr>rank_score = 1, rank_document =
                     \<lparr>cand_id = ''b'', cand_chunk_text = ''Lyon is a city in France.''\<rparr>\<rparr>]\<rparr>))
     = Some True"
  using retrieval_state_invariant
          [of example_env "(input_state ''Paris?'')\<lparr>has_context := Some True\<rparr>"
              "no_update\<lparr>upd_has_documents := Some True,
                   upd_documents := Some [\<lparr>rank_score = 1, rank_document =
                     \<lparr>cand_id = ''a'', cand_chunk_text = ''Paris is the capital of France.''\<rparr>\<rparr>,
                     \<lparr>rank_score = 1, rank_document =
                     \<lparr>cand_id = ''b'', cand_chunk_text = ''Lyon is a city in France.''\<rparr>\<rparr>]\<rparr>"
              "[PineconeIndex dense_name, PineconeIndex sparse_name,
                IndexSearch dense_name ''paris?'', IndexSearch sparse_name ''paris?'',
                Rerank ''paris?''
                  [\<lparr>cand_id = ''a'', cand_chunk_text = ''Paris is the capital of France.''\<rparr>,
                   \<lparr>cand_id = ''b'', cand_chunk_text = ''Lyon is a city in France.''\<rparr>]]"]
  by (simp add: example_env_def retrieve_rag_node_def input_state_def str_lower_def lower_char_def
                dense_example_def sparse_example_def dense_name_def sparse_name_def
                merge_chunks_def sorted_hits_def sorted_reverse_def deduped_hits_def Let_def
                no_update_def apply_update_def)

subsection \<open>Streaming the answer\<close>

lemma consume_chunks_yield:
  "consume_chunks chunks (rt, inp, outp) = (Inr (rt', inp', outp'), fx) \<Longrightarrow>
   \<exists>ys. rt' = rt @ concat ys \<and>
        (\<forall>rest. yield_answers (concat (map effect_events fx) @ rest)
                  = (ys @ fst (yield_answers rest), snd (yield_answers rest)))"
proof (induction chunks arbitrary: rt inp outp fx)
  case Nil
  then have "rt' = rt @ concat []" "fx = []" by simp_all
  then show ?case by (intro exI [of _ "[]"]) simp
next
  case (Cons chunk chunks)
  show ?case
  proof (cases "msg_content chunk \<noteq> []")
    case False
    then obtain i o' where "consume_chunks chunks (rt, i, o') = (Inr (rt', inp', outp'), fx)"
      using Cons.prems by (auto split: option.splits)
    then show ?thesis by (rule Cons.IH)
  next
    case True
    then obtain t i o' fx' where t: "first_text chunk = Inr t"
      and rec: "consume_chunks chunks (rt @ t, i, o') = (Inr (rt', inp', outp'), fx')"
      and fx: "fx = StreamWrite [(''answer'', t)] # fx'"
      using Cons.prems by (auto split: option.splits sum.splits prod.splits)
    from Cons.IH [OF rec] obtain ys where ys: "rt' = (rt @ t) @ concat ys"
      and yld: "\<forall>rest. yield_answers (concat (map effect_events fx') @ rest)
                  = (ys @ fst (yield_answers rest), snd (yield_answers rest))"
      by blast
    show ?thesis
    proof (cases "t = []")
      case True
      with ys yld fx show ?thesis
        by (intro exI [of _ ys]) (simp add: chunk_get_answer_def)
    next
      case False
      with ys yld fx show ?thesis
        by (intro exI [of _ "t # ys"]) (simp add: chunk_get_answer_def)
    qed
  qed
qed

lemma generate_answer_step_repeats:
  assumes "generate_answer_node env state = (Inr u, fx)"
  shows "\<exists>a ys. upd_answer u = Some a \<and> concat ys = a \<and>
           yield_answers (step_events GenerateAnswer fx u (apply_update state u))
             = (if a = [] then (ys, None) else (ys @ [a], None))"
proof -
  from assms obtain docs where docs: "documents state = Some docs"
    by (auto simp: generate_answer_node_def split: option.splits)
  let ?ctx = "str_join newline (map (\<lambda>doc. cand_chunk_text (rank_document doc)) docs)"
  obtain chunks failure where cs: "client_astream env ?ctx (prompt state) = (chunks, failure)"
    by (cases "client_astream env ?ctx (prompt state)")
  from assms docs cs obtain a inp outp fxc fxu
    where cc: "consume_chunks chunks ([], 0, 0) = (Inr (a, inp, outp), fxc)"
      and um: "usage_metadata env inp outp = (Inr (), fxu)"
      and u: "u = no_update\<lparr>upd_answer := Some a\<rparr>"
      and fx: "fx = ModelStream ?ctx (prompt state) # fxc @ fxu"
    by (auto simp: generate_answer_node_def Let_def
             split: option.splits sum.splits prod.splits)
  from consume_chunks_yield [OF cc] obtain ys where a: "a = concat ys"
    and yld: "\<forall>rest. yield_answers (concat (map effect_events fxc) @ rest)
                  = (ys @ fst (yield_answers rest), snd (yield_answers rest))"
    by auto
  have "\<not> list_ex is_generation_call fxu"
    using usage_metadata_calls(1) [of env inp outp] um by simp
  then have q: "yield_answers (concat (map effect_events fxu) @ rest) = yield_answers rest" for rest
    by (rule yield_effects_quiet)
  have ans: "answer (apply_update state u) = Some a"
    by (simp add: u apply_update_def no_update_def)
  have "yield_answers (step_events GenerateAnswer fx u (apply_update state u))
          = (if a = [] then (ys, None) else (ys @ [a], None))"
    by (simp add: step_events_def fx yld q ans chunk_get_answer_def)
  with a u show ?thesis
    by (simp add: no_update_def)
qed

text \<open>
  C1. On the example run the model streams \<open>Par\<close> and \<open>is\<close>. \<open>stream\<close> yields these two
  fragments from the \<open>custom\<close> events and then the whole answer \<open>Paris\<close> once more from the
  \<open>values\<close> event that follows the \<open>generate_answer\<close> step, so the concatenation of what it
  yields is the answer twice, not the answer. (The lemma before this one shows the same
  for every run of the step that produces a non-empty answer.)
\<close>

theorem stream_repeats_answer:
  "stream example_env ''What is the capital of France?'' = ([''Par'', ''is'', ''Paris''], None) \<and>
   answer (final_state (astream example_env ''What is the capital of France?'')) = Some ''Paris'' \<and>
   path (astream example_env ''What is the capital of France?'')
     = [CheckContext, RetrieveRag, GenerateAnswer] \<and>
   concat (fst (stream example_env ''What is the capital of France?'')) = ''ParisParis''"
  by code_simp

subsection \<open>The usage report\<close>

lemma check_context_node_sink_raises:
  assumes "client_invoke env (prompt state) = Inr response"
    and "msg_usage_metadata response = Some u"
    and "fst (usage_metadata env (input_tokens u) (output_tokens u)) = Inl e"
  shows "check_context_node env state =
           (Inl e, ModelInvoke (prompt state)
                     # snd (usage_metadata env (input_tokens u) (output_tokens u)))"
proof (cases "usage_metadata env (input_tokens u) (output_tokens u)")
  case (Pair r fx)
  with assms(3) have "r = Inl e" by simp
  with Pair assms show ?thesis
    by (simp add: check_context_node_def)
qed

text \<open>
  C8 (as stated, refuted). With a tracing run whose \<open>add_metadata\<close> raises, the usage
  report of the context check raises, and so does the workflow run: the failure of the
  telemetry sink reaches the caller of \<open>stream\<close>.
\<close>

theorem usage_report_failure_propagates:
  "fst (usage_metadata failing_sink_env 40 1) = Inl (ServiceError ''tracing unavailable'') \<and>
   stream failing_sink_env ''What is the capital of France?''
     = ([], Some (ServiceError ''tracing unavailable'')) \<and>
   raised (astream failing_sink_env ''What is the capital of France?'')
     = Some (ServiceError ''tracing unavailable'')"
  by code_simp

text \<open>
  C8 (amended). \<open>__usage_metadata\<close> does nothing when there is no current run; when there
  is one it calls \<open>add_metadata\<close> once, with the model identifier and the token counts,
  the total being the sum of input and output, and returns if that call returns. It has
  no handler: an exception of \<open>add_metadata\<close> is raised by the usage report, and raised in
  the context check it ends the workflow run with that exception before anything is
  streamed.
\<close>

theorem usage_metadata_records_or_raises:
  "(\<not> get_current_run_tree env \<longrightarrow> usage_metadata env inp outp = (Inr (), [])) \<and>
   (get_current_run_tree env \<longrightarrow>
      (\<exists>metadata.
         snd (usage_metadata env inp outp) = [AddMetadata metadata] \<and>
         ls_model_name metadata = model_id env \<and>
         um_input_tokens (md_usage_metadata metadata) = inp \<and>
         um_output_tokens (md_usage_metadata metadata) = outp \<and>
         um_total_tokens (md_usage_metadata metadata) = inp + outp \<and>
         fst (usage_metadata env inp outp)
           = (case run_add_metadata env metadata of None \<Rightarrow> Inr () | Some e \<Rightarrow> Inl e))) \<and>
   (client_invoke env p = Inr response \<and> msg_usage_metadata response = Some u \<and>
      fst (usage_metadata env (input_tokens u) (output_tokens u)) = Inl e \<longrightarrow>
      stream env p = ([], Some e) \<and> raised (astream env p) = Some e \<and>
      path (astream env p) = [CheckContext])"
proof (intro conjI impI)
  assume "\<not> get_current_run_tree env"
  then show "usage_metadata env inp outp = (Inr (), [])"
    by (simp add: usage_metadata_def)
next
  assume "get_current_run_tree env"
  then show "\<exists>metadata.
         snd (usage_metadata env inp outp) = [AddMetadata metadata] \<and>
         ls_model_name metadata = model_id env \<and>
         um_input_tokens (md_usage_metadata metadata) = inp \<and>
         um_output_tokens (md_usage_metadata metadata) = outp \<and>
         um_total_tokens (md_usage_metadata metadata) = inp + outp \<and>
         fst (usage_metadata env inp outp)
           = (case run_add_metadata env metadata of None \<Rightarrow> Inr () | Some e \<Rightarrow> Inl e)"
    by (simp add: usage_metadata_def Let_def split: option.splits)
next
  assume a: "client_invoke env p = Inr response \<and> msg_usage_metadata response = Some u \<and>
      fst (usage_metadata env (input_tokens u) (output_tokens u)) = Inl e"
  let ?fx = "ModelInvoke p # snd (usage_metadata env (input_tokens u) (output_tokens u))"
  have "check_context_node env (input_state p) = (Inl e, ?fx)"
    using check_context_node_sink_raises [of env "input_state p" response u e] a
    by (simp add: input_state_fields)
  then have "run_node env CheckContext (input_state p) = (Inl e, ?fx)"
    by (simp add: run_node_def)
  then have run: "astream env p =
      \<lparr>events = (''values'', StateChunk (input_state p)) # failed_step_events ?fx,
       raised = Some e, final_state = input_state p, effects = ?fx, path = [CheckContext]\<rparr>"
    by (simp add: astream_def Let_def run_from_raise)
  have "\<not> list_ex is_generation_call ?fx"
    by (simp add: usage_metadata_calls)
  then have "yield_answers (concat (map effect_events ?fx) @ []) = yield_answers []"
    by (rule yield_effects_quiet)
  then have "yield_answers (events (astream env p)) = ([], None)"
    by (simp add: run failed_step_events_def chunk_get_answer_def input_state_fields)
  then have "stream env p = ([], Some e)"
    by (simp add: stream_def Let_def run)
  then show "stream env p = ([], Some e)" "raised (astream env p) = Some e"
    "path (astream env p) = [CheckContext]"
    by (simp_all add: run)
qed

theorem usage_metadata_records_or_raises_witness:
  "\<not> get_current_run_tree (example_env\<lparr>get_current_run_tree := False\<rparr>) \<and>
   usage_metadata (example_env\<lparr>get_current_run_tree := False\<rparr>) 40 1 = (Inr (), []) \<and>
   get_current_run_tree failing_sink_env \<and>
   client_invoke failing_sink_env ''Why?''
     = Inr (text_message ''YES'' (Some \<lparr>input_tokens = 40, output_tokens = 1\<rparr>)) \<and>
   msg_usage_metadata (text_message ''YES'' (Some \<lparr>input_tokens = 40, output_tokens = 1\<rparr>))
     = Some \<lparr>input_tokens = 40, output_tokens = 1\<rparr> \<and>
   fst (usage_metadata failing_sink_env 40 1) = Inl (ServiceError ''tracing unavailable'') \<and>
   stream failing_sink_env ''Why?'' = ([], Some (ServiceError ''tracing unavailable'')) \<and>
   path (astream failing_sink_env ''Why?'') = [CheckContext]"
  using usage_metadata_records_or_raises
          [where env = "example_env\<lparr>get_current_run_tree := False\<rparr>" and inp = 40 and outp = 1]
        usage_metadata_records_or_raises
          [where env = failing_sink_env and inp = 40 and outp = 1 and p = "''Why?''"
             and response = "text_message ''YES'' (Some \<lparr>input_tokens = 40, output_tokens = 1\<rparr>)"
             and u = "\<lparr>input_tokens = 40, output_tokens = 1\<rparr>"
             and e = "ServiceError ''tracing unavailable''"]
  by (simp add: failing_sink_env_def example_env_def text_message_def usage_metadata_def)

subsection \<open>Ingestion\<close>
















end
